theory Spec2Isabelle
  imports Main
begin

section \<open>The embedded conference component\<close>

text \<open>
  A model of \<^verbatim>\<open>app/components/JitsiMeetComponent.tsx\<close>: a React function component that
  creates an external conference widget, listens to its lifecycle events and reconnects a
  bounded number of times.

  React state (\<^verbatim>\<open>useState\<close>) and refs (\<^verbatim>\<open>useRef\<close>) are fields of one record. A handler
  reads a state variable from the closure of the render that created the handler, and a
  ref from the ref object itself; so every handler below takes the captured value of
  \<^verbatim>\<open>reconnectAttempts\<close> as a parameter and reads the refs from the record. All state
  setters of the source either store a constant or apply \<^verbatim>\<open>prev => prev + 1\<close>, so applying
  them in order to the record gives the state React commits.
\<close>

subsection \<open>Data\<close>

datatype ConnectionState = Connecting | Connected | Reconnecting | Left | Closed | Error | Failed

text \<open>\<^verbatim>\<open>interface JitsiMeetProps\<close>: every field but the room name is optional.\<close>

record JitsiMeetProps =
  roomName :: string
  displayName :: "string option"
  domain :: "string option"
  startWithAudioMuted :: "bool option"
  startWithVideoMuted :: "bool option"

text \<open>The parameters of one render, after the defaults of the destructuring pattern.\<close>

record bindings =
  b_roomName :: string
  b_displayName :: string
  b_domain :: string
  b_startWithAudioMuted :: bool
  b_startWithVideoMuted :: bool

definition destructure :: "JitsiMeetProps \<Rightarrow> bindings" where
  "destructure p =
     \<lparr> b_roomName = roomName p,
       b_displayName = (case displayName p of None \<Rightarrow> ''User'' | Some d \<Rightarrow> d),
       b_domain = (case domain p of None \<Rightarrow> ''meet.jit.si'' | Some d \<Rightarrow> d),
       b_startWithAudioMuted = (case startWithAudioMuted p of None \<Rightarrow> False | Some b \<Rightarrow> b),
       b_startWithVideoMuted = (case startWithVideoMuted p of None \<Rightarrow> False | Some b \<Rightarrow> b) \<rparr>"

text \<open>
  The options object given to the widget constructor. Only the entries that depend on
  the parameters are kept, with the size and \<^verbatim>\<open>prejoinPageEnabled\<close>; the other entries of
  \<^verbatim>\<open>configOverwrite\<close> and \<^verbatim>\<open>interfaceConfigOverwrite\<close> are constants of the source.
\<close>

record JitsiMeetAPIOptions =
  o_roomName :: string
  o_width :: string
  o_height :: string
  o_displayName :: string
  o_prejoinPageEnabled :: bool
  o_startWithAudioMuted :: bool
  o_startWithVideoMuted :: bool

definition options :: "bindings \<Rightarrow> JitsiMeetAPIOptions" where
  "options b =
     \<lparr> o_roomName = b_roomName b,
       o_width = ''100%'',
       o_height = ''100%'',
       o_displayName = b_displayName b,
       o_prejoinPageEnabled = False,
       o_startWithAudioMuted = b_startWithAudioMuted b,
       o_startWithVideoMuted = b_startWithVideoMuted b \<rparr>"

text \<open>
  A widget handle: the arguments it was constructed with, and the value of
  \<^verbatim>\<open>reconnectAttempts\<close> captured by the listeners registered on it.
\<close>

record handle =
  h_id :: nat
  h_domain :: string
  h_options :: JitsiMeetAPIOptions
  h_attempts :: nat

text \<open>
  A live \<^verbatim>\<open>setInterval\<close> timer (\<^verbatim>\<open>connectionMonitor\<close>), with the value of
  \<^verbatim>\<open>reconnectAttempts\<close> captured by its callback.
\<close>

record monitor =
  m_id :: nat
  m_attempts :: nat

text \<open>The variables of a render that \<^verbatim>\<open>initializeJitsi\<close> and the handlers capture.\<close>

record closure =
  cl_bindings :: bindings
  cl_attempts :: nat

text \<open>
  The two cleanup functions the effect can return: the one of the branch that appended a
  script element (lines 78 to 82) and the one of the branch that found the library
  loaded (lines 89 to 94).
\<close>

datatype cleanup = RemoveScript | DisposeApi

record component =
  props :: JitsiMeetProps
  connectionStatus :: ConnectionState
  reconnectAttempts :: nat
  jitsiApiRef :: "handle option"
  isReconnectingRef :: bool
  monitors :: "monitor list"
  disposed :: "nat list"
  constructed :: nat
  script :: "closure option"
  removed :: "closure list"
  cleanup :: cleanup
  mounted :: bool

text \<open>
  \<^const>\<open>monitors\<close> are the intervals that have been set and not cleared, \<^const>\<open>disposed\<close> the
  identifiers of the handles on which \<^verbatim>\<open>dispose()\<close> was called, \<^const>\<open>constructed\<close> the number
  of handles constructed so far, and \<^const>\<open>script\<close> the script element that the last run of
  the effect appended and that is still loading, with the closure of its \<^verbatim>\<open>onload\<close>.
  \<^const>\<open>removed\<close> are the script elements that a cleanup took out of the document while
  they were loading: removing the element does not stop the load, so the browser still
  fires their \<^verbatim>\<open>onload\<close> or \<^verbatim>\<open>onerror\<close>, with the closure of the render that created them.

  What the component cannot decide is an input of each step: whether
  \<^verbatim>\<open>window.JitsiMeetExternalAPI\<close> is defined, whether the constructor throws, whether the
  document contains the container, and whether \<^verbatim>\<open>getNumberOfParticipants()\<close> throws.
\<close>

record env =
  apiLoaded :: bool
  ctorThrows :: bool
  containerAttached :: bool
  queryThrows :: bool

text \<open>
  The argument of the \<^verbatim>\<open>errorOccurred\<close> listener is untyped. What the listener reads is its
  \<^verbatim>\<open>error\<close> field: undefined or null, a string, an array (given by its string elements; no
  other element equals a string), or any other value, which has no \<^verbatim>\<open>includes\<close> method
  (the widget library itself sends an object here). The argument itself can be undefined or
  null, which is \<open>None\<close> below.
\<close>

datatype error_field = Undefined | Text string | Items "string list" | Other

datatype js_error = TypeError

datatype widget_event =
    ReadyToClose
  | VideoConferenceJoined
  | VideoConferenceLeft
  | ConnectionEstablished
  | ConnectionFailed
  | SuspendDetected
  | ErrorOccurred "error_field option"

datatype event =
    Widget widget_event
  | Tick nat
  | ScriptLoad
  | ScriptError
  | RemovedScriptLoad nat
  | RemovedScriptError nat
  | SetProps JitsiMeetProps
  | Unmount

subsection \<open>Handlers\<close>

definition MAX_RECONNECT_ATTEMPTS :: nat where
  "MAX_RECONNECT_ATTEMPTS = 3"

definition handleScriptError :: "component \<Rightarrow> component" where
  "handleScriptError c = c\<lparr>connectionStatus := Error\<rparr>"

definition handleConnectionIssue :: "nat \<Rightarrow> component \<Rightarrow> component" where
  "handleConnectionIssue attempts c =
     (if isReconnectingRef c then c
      else
        let c1 = c\<lparr>isReconnectingRef := True, connectionStatus := Reconnecting\<rparr>
        in if attempts < MAX_RECONNECT_ATTEMPTS
           then c1\<lparr>reconnectAttempts := reconnectAttempts c1 + 1\<rparr>
           else c1\<lparr>connectionStatus := Failed\<rparr>)"

definition handleClose :: "component \<Rightarrow> component" where
  "handleClose c = c\<lparr>connectionStatus := Closed\<rparr>"

definition handleVideoConferenceJoined :: "component \<Rightarrow> component" where
  "handleVideoConferenceJoined c = c\<lparr>connectionStatus := Connected\<rparr>"

definition handleVideoConferenceLeft :: "component \<Rightarrow> component" where
  "handleVideoConferenceLeft c = c\<lparr>connectionStatus := Left\<rparr>"

definition handleConnectionFailure :: "nat \<Rightarrow> component \<Rightarrow> component" where
  "handleConnectionFailure attempts c = handleConnectionIssue attempts c"

text \<open>\<^verbatim>\<open>String.prototype.includes\<close>: the argument occurs as a contiguous substring.\<close>

fun startsWith :: "string \<Rightarrow> string \<Rightarrow> bool" where
  "startsWith s [] = True"
| "startsWith [] (p # ps) = False"
| "startsWith (x # xs) (p # ps) = (x = p \<and> startsWith xs ps)"

fun str_includes :: "string \<Rightarrow> string \<Rightarrow> bool" where
  "str_includes [] sub = (sub = [])"
| "str_includes (x # xs) sub = (startsWith (x # xs) sub \<or> str_includes xs sub)"

text \<open>
  \<^verbatim>\<open>error.error?.includes("service") || error.error?.includes("limit")\<close>: reading
  \<^verbatim>\<open>error.error\<close> throws a TypeError when the argument is undefined or null; the optional
  chain gives undefined, hence falsy, on an undefined or null field; a string is searched
  for the substring and an array for the element; on any other value the call of the
  missing method throws a TypeError. The handler changes no state before the test.
\<close>

definition handleErrorOccurred ::
  "nat \<Rightarrow> error_field option \<Rightarrow> component \<Rightarrow> js_error + component" where
  "handleErrorOccurred attempts error c =
     (case error of
        None \<Rightarrow> Inl TypeError
      | Some Undefined \<Rightarrow> Inr c
      | Some (Text s) \<Rightarrow>
          if str_includes s ''service'' \<or> str_includes s ''limit''
          then Inr (handleConnectionIssue attempts c)
          else Inr c
      | Some (Items xs) \<Rightarrow>
          if ''service'' \<in> set xs \<or> ''limit'' \<in> set xs
          then Inr (handleConnectionIssue attempts c)
          else Inr c
      | Some Other \<Rightarrow> Inl TypeError)"

definition handleSuspendDetected :: "nat \<Rightarrow> component \<Rightarrow> component" where
  "handleSuspendDetected attempts c = handleConnectionIssue attempts c"

text \<open>
  The map given to \<^verbatim>\<open>addEventListeners\<close>, by event name: the state a listener leaves, or
  the error it throws.
\<close>

fun listener :: "nat \<Rightarrow> widget_event \<Rightarrow> component \<Rightarrow> js_error + component" where
  "listener attempts ReadyToClose c = Inr (handleClose c)"
| "listener attempts VideoConferenceJoined c = Inr (handleVideoConferenceJoined c)"
| "listener attempts VideoConferenceLeft c = Inr (handleVideoConferenceLeft c)"
| "listener attempts ConnectionEstablished c = Inr (c\<lparr>connectionStatus := Connected\<rparr>)"
| "listener attempts ConnectionFailed c = Inr (handleConnectionFailure attempts c)"
| "listener attempts SuspendDetected c = Inr (handleSuspendDetected attempts c)"
| "listener attempts (ErrorOccurred error) c = handleErrorOccurred attempts error c"

subsection \<open>Creating the widget\<close>

text \<open>\<^verbatim>\<open>if (jitsiApiRef.current) { jitsiApiRef.current.dispose(); jitsiApiRef.current = null; }\<close>\<close>

definition disposeCurrent :: "component \<Rightarrow> component" where
  "disposeCurrent c =
     (case jitsiApiRef c of
        None \<Rightarrow> c
      | Some h \<Rightarrow> c\<lparr>disposed := disposed c @ [h_id h], jitsiApiRef := None\<rparr>)"

text \<open>
  \<^verbatim>\<open>initializeJitsi\<close>. The interval is set before the listeners are registered; both
  capture the handlers of the closure. The function returns a cleanup that would clear
  the interval, and both of its callers (the effect and \<^verbatim>\<open>script.onload\<close>) drop the
  returned value, so the model has no such cleanup. The mutation observer looks for
  popups in the widget's own document and touches no state of the component.
\<close>

definition initializeJitsi :: "env \<Rightarrow> closure \<Rightarrow> component \<Rightarrow> component" where
  "initializeJitsi e cl c =
     (if \<not> apiLoaded e then c\<lparr>connectionStatus := Error\<rparr>
      else
        let c1 = disposeCurrent c
        in if ctorThrows e then c1\<lparr>connectionStatus := Error\<rparr>
           else
             c1\<lparr> jitsiApiRef :=
                    Some \<lparr> h_id = constructed c1,
                           h_domain = b_domain (cl_bindings cl),
                           h_options = options (cl_bindings cl),
                           h_attempts = cl_attempts cl \<rparr>,
                  constructed := constructed c1 + 1,
                  connectionStatus := Connected,
                  isReconnectingRef := False,
                  monitors := monitors c1 @ [\<lparr> m_id = constructed c1, m_attempts = cl_attempts cl \<rparr>] \<rparr>)"

text \<open>\<^verbatim>\<open>clearInterval(connectionMonitor)\<close>\<close>

definition clearInterval :: "monitor \<Rightarrow> component \<Rightarrow> component" where
  "clearInterval m c = c\<lparr>monitors := filter (\<lambda>x. m_id x \<noteq> m_id m) (monitors c)\<rparr>"

text \<open>
  The callback of the interval. After an unmount React has set the container ref to
  null, and \<^verbatim>\<open>document.contains(null)\<close> is false.
\<close>

definition connectionMonitor :: "env \<Rightarrow> monitor \<Rightarrow> component \<Rightarrow> component" where
  "connectionMonitor e m c =
     (if jitsiApiRef c = None \<or> \<not> (mounted c \<and> containerAttached e) then clearInterval m c
      else if queryThrows e then clearInterval m (handleConnectionIssue (m_attempts m) c)
      else c)"

subsection \<open>The effect and its cleanup\<close>

definition current_closure :: "component \<Rightarrow> closure" where
  "current_closure c = \<lparr> cl_bindings = destructure (props c), cl_attempts = reconnectAttempts c \<rparr>"

text \<open>The dependency list \<^verbatim>\<open>[roomName, displayName, domain, reconnectAttempts]\<close>.\<close>

definition deps :: "component \<Rightarrow> string \<times> string \<times> string \<times> nat" where
  "deps c =
     (b_roomName (destructure (props c)), b_displayName (destructure (props c)),
      b_domain (destructure (props c)), reconnectAttempts c)"

definition runEffect :: "env \<Rightarrow> component \<Rightarrow> component" where
  "runEffect e c =
     (if \<not> apiLoaded e then c\<lparr>script := Some (current_closure c), cleanup := RemoveScript\<rparr>
      else (initializeJitsi e (current_closure c) c)\<lparr>cleanup := DisposeApi\<rparr>)"

text \<open>
  The cleanup of the script branch removes the element when the document still contains
  it; a load that is pending stays pending. A script that has loaded or failed is in
  neither field any more, and removing its element changes nothing.
\<close>

definition runCleanup :: "component \<Rightarrow> component" where
  "runCleanup c =
     (case cleanup c of
        RemoveScript \<Rightarrow>
          c\<lparr>script := None,
            removed := removed c @ (case script c of None \<Rightarrow> [] | Some cl \<Rightarrow> [cl])\<rparr>
      | DisposeApi \<Rightarrow> disposeCurrent c)"

text \<open>
  After a handler has run React renders again, and runs the cleanup and the effect when
  a dependency differs from its value at the previous render.
\<close>

definition flush :: "env \<Rightarrow> component \<Rightarrow> component \<Rightarrow> component" where
  "flush e before c = (if deps c \<noteq> deps before then runEffect e (runCleanup c) else c)"

text \<open>
  A widget event reaches the listeners of the handle the component holds. An error thrown
  by a listener goes to the widget library that called it, and the component is as
  before the call.
\<close>

definition without :: "nat \<Rightarrow> 'a list \<Rightarrow> 'a list" where
  "without i xs = take i xs @ drop (Suc i) xs"

fun deliver :: "env \<Rightarrow> event \<Rightarrow> component \<Rightarrow> component" where
  "deliver e (Widget w) c =
     (case jitsiApiRef c of
        None \<Rightarrow> c
      | Some h \<Rightarrow> (case listener (h_attempts h) w c of Inl err \<Rightarrow> c | Inr c' \<Rightarrow> c'))"
| "deliver e (Tick i) c =
     (case find (\<lambda>m. m_id m = i) (monitors c) of
        None \<Rightarrow> c
      | Some m \<Rightarrow> connectionMonitor e m c)"
| "deliver e ScriptLoad c =
     (case script c of None \<Rightarrow> c | Some cl \<Rightarrow> initializeJitsi e cl (c\<lparr>script := None\<rparr>))"
| "deliver e ScriptError c =
     (case script c of None \<Rightarrow> c | Some cl \<Rightarrow> handleScriptError (c\<lparr>script := None\<rparr>))"
| "deliver e (RemovedScriptLoad i) c =
     (if i < length (removed c)
      then initializeJitsi e (removed c ! i) (c\<lparr>removed := without i (removed c)\<rparr>)
      else c)"
| "deliver e (RemovedScriptError i) c =
     (if i < length (removed c)
      then handleScriptError (c\<lparr>removed := without i (removed c)\<rparr>)
      else c)"
| "deliver e (SetProps p) c = c\<lparr>props := p\<rparr>"
| "deliver e Unmount c = (runCleanup c)\<lparr>mounted := False\<rparr>"

text \<open>
  One event, processed until React is idle again. An unmounted component gets no props
  and renders no more, but the callbacks it left behind (intervals, script loads,
  listeners of a handle it did not dispose) still run: they change the refs, and React
  ignores their calls of the state setters.
\<close>

definition step :: "env \<Rightarrow> event \<Rightarrow> component \<Rightarrow> component" where
  "step e ev c =
     (if mounted c then
        (case ev of Unmount \<Rightarrow> deliver e ev c | _ \<Rightarrow> flush e c (deliver e ev c))
      else
        (case ev of
           SetProps p \<Rightarrow> c
         | Unmount \<Rightarrow> c
         | _ \<Rightarrow>
             (deliver e ev c)\<lparr>connectionStatus := connectionStatus c,
               reconnectAttempts := reconnectAttempts c\<rparr>))"

fun run :: "component \<Rightarrow> (env \<times> event) list \<Rightarrow> component" where
  "run c [] = c"
| "run c ((e, ev) # rest) = run (step e ev c) rest"

text \<open>The state of the first render, and the mount: the first run of the effect.\<close>

definition initial :: "JitsiMeetProps \<Rightarrow> component" where
  "initial p =
     \<lparr> props = p, connectionStatus = Connecting, reconnectAttempts = 0, jitsiApiRef = None,
       isReconnectingRef = False, monitors = [], disposed = [], constructed = 0,
       script = None, removed = [], cleanup = DisposeApi, mounted = True \<rparr>"

definition mount :: "env \<Rightarrow> JitsiMeetProps \<Rightarrow> component" where
  "mount e p = runEffect e (initial p)"

subsection \<open>The view\<close>

fun show_nat :: "nat \<Rightarrow> string" where
  "show_nat n =
     (if n < 10 then [''0123456789'' ! n]
      else show_nat (n div 10) @ [''0123456789'' ! (n mod 10)])"

declare show_nat.simps [simp del]

text \<open>An element of the rendered tree: a status line (class and text) or the container.\<close>

datatype element =
    StatusLine string string
  | MountPoint string string

definition renderConnectionStatus :: "component \<Rightarrow> element option" where
  "renderConnectionStatus c =
     (case connectionStatus c of
        Connecting \<Rightarrow> Some (StatusLine ''p-4 text-center'' ''Connecting to conference...'')
      | Reconnecting \<Rightarrow>
          Some (StatusLine ''p-4 text-center''
            (''Connection interrupted. Reconnecting... (Attempt '' @ show_nat (reconnectAttempts c)
              @ ''/'' @ show_nat MAX_RECONNECT_ATTEMPTS @ '')''))
      | Error \<Rightarrow>
          Some (StatusLine ''p-4 text-center text-red-600''
            ''Failed to connect to the conference. Please try again.'')
      | Failed \<Rightarrow>
          Some (StatusLine ''p-4 text-center text-red-600''
            ''Could not reconnect after multiple attempts. Please reload the page.'')
      | _ \<Rightarrow> None)"

text \<open>
  The children of the outer element, in order. \<^verbatim>\<open>{cond && x}\<close> renders nothing when the
  condition is false or \<^verbatim>\<open>x\<close> is null.
\<close>

definition render :: "component \<Rightarrow> element list" where
  "render c =
     (if connectionStatus c \<noteq> Connected
      then (case renderConnectionStatus c of None \<Rightarrow> [] | Some el \<Rightarrow> [el])
      else [])
     @ [MountPoint ''jitsi-meet-container''
          (if connectionStatus c = Connected then ''100%'' else ''calc(100% - 40px)'')]"

definition isStatusLine :: "element \<Rightarrow> bool" where
  "isStatusLine el = (case el of StatusLine cls txt \<Rightarrow> True | MountPoint cls h \<Rightarrow> False)"

definition isMountPoint :: "element \<Rightarrow> bool" where
  "isMountPoint el = (case el of StatusLine cls txt \<Rightarrow> False | MountPoint cls h \<Rightarrow> True)"

subsection \<open>Concrete inputs\<close>

text \<open>
  A component given only a room name, the environments of a step, and the states of the
  scenarios: \<open>started\<close> is the component after a mount that found the library loaded.
\<close>

definition room :: JitsiMeetProps where
  "room =
     \<lparr> roomName = ''demo'', displayName = None, domain = None,
       startWithAudioMuted = None, startWithVideoMuted = None \<rparr>"

definition envOK :: env where
  "envOK =
     \<lparr> apiLoaded = True, ctorThrows = False, containerAttached = True, queryThrows = False \<rparr>"

definition envNoApi :: env where
  "envNoApi = envOK\<lparr>apiLoaded := False\<rparr>"

definition envCtorThrows :: env where
  "envCtorThrows = envOK\<lparr>ctorThrows := True\<rparr>"

definition envDetached :: env where
  "envDetached = envOK\<lparr>containerAttached := False\<rparr>"

definition envQueryThrows :: env where
  "envQueryThrows = envOK\<lparr>queryThrows := True\<rparr>"

definition started :: component where
  "started = mount envOK room"

definition failure :: "env \<times> event" where
  "failure = (envOK, Widget ConnectionFailed)"

text \<open>
  A component is in step when it is mounted, no reconnect is in flight, and the listeners
  of the handle it holds captured the current value of \<^verbatim>\<open>reconnectAttempts\<close>.
\<close>

definition in_step :: "component \<Rightarrow> bool" where
  "in_step c =
     (mounted c \<and> \<not> isReconnectingRef c \<and>
      (case jitsiApiRef c of None \<Rightarrow> False | Some h \<Rightarrow> h_attempts h = reconnectAttempts c))"

text \<open>
  Two invariants of the runs. The first: a mounted component whose status is failed has
  its reconnect flag set. The second bounds the counter and relates it to the counter
  captured by the listeners of the held handle and by the \<^verbatim>\<open>onload\<close> of a pending script;
  \<open>loose\<close> is the part of it that also holds between a handler and the next run of the
  effect.
\<close>

definition failed_guarded :: "component \<Rightarrow> bool" where
  "failed_guarded c = (mounted c \<and> connectionStatus c = Failed \<longrightarrow> isReconnectingRef c)"

definition loose :: "component \<Rightarrow> bool" where
  "loose c =
     (reconnectAttempts c \<le> MAX_RECONNECT_ATTEMPTS
      \<and> (isReconnectingRef c
          \<or> map_option h_attempts (jitsiApiRef c) \<in> {None, Some (reconnectAttempts c)})
      \<and> (script c \<noteq> None \<longrightarrow> cleanup c = RemoveScript))"

definition bounded :: "component \<Rightarrow> bool" where
  "bounded c =
     (loose c \<and> map_option cl_attempts (script c) \<in> {None, Some (reconnectAttempts c)})"

text \<open>
  An event is current when it is neither the firing of an interval nor the load of a
  removed script whose callback captured another value of the counter than the present
  one; a run is current when each of its events is, in the state that receives it.
\<close>

fun current :: "component \<Rightarrow> event \<Rightarrow> bool" where
  "current c (Tick i) =
     (case find (\<lambda>m. m_id m = i) (monitors c) of
        None \<Rightarrow> True
      | Some m \<Rightarrow> m_attempts m = reconnectAttempts c)"
| "current c (RemovedScriptLoad i) =
     (if i < length (removed c) then cl_attempts (removed c ! i) = reconnectAttempts c else True)"
| "current c ev = True"

fun current_run :: "component \<Rightarrow> (env \<times> event) list \<Rightarrow> bool" where
  "current_run c [] = True"
| "current_run c ((e, ev) # rest) = (current c ev \<and> current_run (step e ev c) rest)"


lemmas handler_defs =
  handleScriptError_def handleConnectionIssue_def handleClose_def
  handleVideoConferenceJoined_def handleVideoConferenceLeft_def handleConnectionFailure_def
  handleErrorOccurred_def handleSuspendDetected_def MAX_RECONNECT_ATTEMPTS_def

lemmas effect_defs =
  disposeCurrent_def initializeJitsi_def clearInterval_def connectionMonitor_def
  current_closure_def deps_def runEffect_def runCleanup_def flush_def step_def without_def
  initial_def mount_def destructure_def options_def

lemmas input_defs =
  room_def envOK_def envNoApi_def envCtorThrows_def envDetached_def envQueryThrows_def
  started_def failure_def

section \<open>Properties\<close>

subsection \<open>One reconnect\<close>

text \<open>
  A \<^verbatim>\<open>connectionFailed\<close> event on a component that is in step and below the maximum
  replaces the handle: the counter changes, so the effect runs again, and the new
  listeners capture the new counter.
\<close>

lemma reconnect_when_below_max:
  assumes "in_step c" and "reconnectAttempts c < MAX_RECONNECT_ATTEMPTS"
    and "apiLoaded e" and "\<not> ctorThrows e"
  shows "in_step (step e (Widget ConnectionFailed) c)
    \<and> connectionStatus (step e (Widget ConnectionFailed) c) = Connected
    \<and> reconnectAttempts (step e (Widget ConnectionFailed) c) = reconnectAttempts c + 1
    \<and> constructed (step e (Widget ConnectionFailed) c) = constructed c + 1
    \<and> disposed (step e (Widget ConnectionFailed) c) = disposed c @ map h_id (case jitsiApiRef c of None \<Rightarrow> [] | Some h \<Rightarrow> [h])"
  using assms
  by (auto simp add: in_step_def step_def flush_def deps_def handleConnectionFailure_def
        handleConnectionIssue_def Let_def runEffect_def runCleanup_def initializeJitsi_def
        disposeCurrent_def current_closure_def
      split: option.splits cleanup.splits)

text \<open>At the maximum the same event only marks the component as failed.\<close>

lemma fail_when_at_max:
  assumes "in_step c" and "MAX_RECONNECT_ATTEMPTS \<le> reconnectAttempts c"
  shows "step e (Widget ConnectionFailed) c
    = c\<lparr>isReconnectingRef := True, connectionStatus := Failed\<rparr>"
  using assms
  by (auto simp add: in_step_def step_def flush_def deps_def handleConnectionFailure_def
        handleConnectionIssue_def Let_def
      split: option.splits)

subsection \<open>The counter after a successful connection\<close>

text \<open>
  C1, as stated: after one or more counted failures a \<^verbatim>\<open>connectionEstablished\<close> event
  leaves the state connected and the counter at 0. It fails after one failure: the
  listener of lines 234 to 237 only sets the status, and the counter stays 1.
\<close>

theorem connectionEstablished_not_reset:
  "1 \<le> reconnectAttempts (run started [failure])
   \<and> connectionStatus (run started [failure, (envOK, Widget ConnectionEstablished)]) = Connected
   \<and> reconnectAttempts (run started [failure, (envOK, Widget ConnectionEstablished)]) = 1"
  by (simp add: input_defs effect_defs handler_defs)

text \<open>
  C1, amended: a \<^verbatim>\<open>connectionEstablished\<close> event delivered to a mounted component that
  holds a handle sets the status to connected and changes nothing else; the counter keeps
  its value.
\<close>

theorem connectionEstablished_keeps_counter:
  assumes "mounted c" and "jitsiApiRef c = Some h"
  shows "step e (Widget ConnectionEstablished) c = c\<lparr>connectionStatus := Connected\<rparr>
    \<and> connectionStatus (step e (Widget ConnectionEstablished) c) = Connected
    \<and> reconnectAttempts (step e (Widget ConnectionEstablished) c) = reconnectAttempts c"
  using assms by (simp add: step_def flush_def deps_def)

theorem connectionEstablished_keeps_counter_witness:
  "mounted (run started [failure])
   \<and> reconnectAttempts (run started [failure]) = 1
   \<and> connectionStatus (step envOK (Widget ConnectionEstablished) (run started [failure])) = Connected
   \<and> reconnectAttempts (step envOK (Widget ConnectionEstablished) (run started [failure])) = 1"
proof -
  have m: "mounted (run started [failure])"
    by (simp add: input_defs effect_defs handler_defs)
  obtain h where h: "jitsiApiRef (run started [failure]) = Some h"
    by (simp add: input_defs effect_defs handler_defs)
  have r: "reconnectAttempts (run started [failure]) = 1"
    by (simp add: input_defs effect_defs handler_defs)
  from connectionEstablished_keeps_counter [OF m h, of envOK] m r show ?thesis
    by simp
qed

subsection \<open>The bound on the counter\<close>

text \<open>
  Once the status of a mounted component is failed the reconnect flag is set, in every
  state a run reaches from the mount, so an invocation of the reconnect policy in such a
  state returns at its guard.
\<close>

lemma handleConnectionIssue_guarded:
  "failed_guarded c \<Longrightarrow> failed_guarded (handleConnectionIssue a c)"
  by (simp add: failed_guarded_def handleConnectionIssue_def Let_def)

lemma handleErrorOccurred_cases:
  assumes "handleErrorOccurred a err c = Inr c'"
  shows "c' = c \<or> c' = handleConnectionIssue a c"
  using assms
  by (auto simp add: handleErrorOccurred_def split: option.splits error_field.splits if_splits)

lemma listener_cases:
  assumes "listener a w c = Inr c'"
  shows "(\<exists>s. c' = c\<lparr>connectionStatus := s\<rparr> \<and> s \<noteq> Failed) \<or> c' = c \<or> c' = handleConnectionIssue a c"
proof (cases w)
  case (ErrorOccurred err)
  then show ?thesis using assms handleErrorOccurred_cases [of a err c c'] by auto
qed (use assms in \<open>auto simp add: handleClose_def handleVideoConferenceJoined_def
      handleVideoConferenceLeft_def handleConnectionFailure_def handleSuspendDetected_def\<close>)

lemma listener_guarded:
  assumes "failed_guarded c" and "listener a w c = Inr c'"
  shows "failed_guarded c'"
  using listener_cases [OF assms(2)] handleConnectionIssue_guarded [OF assms(1), of a] assms(1)
  by (auto simp add: failed_guarded_def)

lemma initializeJitsi_guarded:
  "failed_guarded c \<Longrightarrow> failed_guarded (initializeJitsi e cl c)"
  by (auto simp add: failed_guarded_def initializeJitsi_def disposeCurrent_def Let_def
      split: option.splits)

lemma runCleanup_guarded:
  "failed_guarded c \<Longrightarrow> failed_guarded (runCleanup c)"
  by (auto simp add: failed_guarded_def runCleanup_def disposeCurrent_def
      split: option.splits cleanup.splits)

lemma runEffect_guarded:
  "failed_guarded c \<Longrightarrow> failed_guarded (runEffect e c)"
  using initializeJitsi_guarded [of c e "current_closure c"]
  by (auto simp add: failed_guarded_def runEffect_def)

lemma deliver_guarded:
  assumes g: "failed_guarded c"
  shows "failed_guarded (deliver e ev c)"
proof (cases ev)
  case (Widget w)
  show ?thesis
  proof (cases "jitsiApiRef c")
    case None
    then show ?thesis using Widget g by simp
  next
    case (Some h)
    then show ?thesis
      using Widget g listener_guarded [OF g, of "h_attempts h" w]
      by (cases "listener (h_attempts h) w c") simp_all
  qed
next
  case (Tick i)
  have "failed_guarded (connectionMonitor e m c)" for m
    using g handleConnectionIssue_guarded [OF g, of "m_attempts m"]
    by (simp add: connectionMonitor_def clearInterval_def failed_guarded_def)
  with g show ?thesis using Tick by (simp split: option.splits)
next
  case ScriptLoad
  from g have "failed_guarded (c\<lparr>script := None\<rparr>)"
    by (simp add: failed_guarded_def)
  then show ?thesis using ScriptLoad g initializeJitsi_guarded by (simp split: option.splits)
next
  case ScriptError
  then show ?thesis using g
    by (simp add: failed_guarded_def handleScriptError_def split: option.splits)
next
  case (RemovedScriptLoad i)
  from g have "failed_guarded (c\<lparr>removed := without i (removed c)\<rparr>)"
    by (simp add: failed_guarded_def)
  then show ?thesis using RemovedScriptLoad g initializeJitsi_guarded by simp
next
  case (RemovedScriptError i)
  then show ?thesis using g
    by (simp add: failed_guarded_def handleScriptError_def)
next
  case (SetProps p)
  then show ?thesis using g by (simp add: failed_guarded_def)
next
  case Unmount
  then show ?thesis by (simp add: failed_guarded_def)
qed

lemma step_guarded:
  assumes "failed_guarded c"
  shows "failed_guarded (step e ev c)"
proof (cases "mounted c")
  case True
  then show ?thesis
    using deliver_guarded [OF assms, of e ev] runEffect_guarded runCleanup_guarded
    by (cases ev) (simp_all add: step_def flush_def)
next
  case False
  have i: "\<not> mounted (initializeJitsi e' cl x)" if "\<not> mounted x" for e' cl x
    using that by (simp add: initializeJitsi_def disposeCurrent_def Let_def split: option.splits)
  have p: "mounted (handleConnectionIssue a x) = mounted x" for a x
    by (simp add: handleConnectionIssue_def Let_def)
  have l: "\<not> mounted c'" if "listener a w c = Inr c'" for a w c'
    using listener_cases [OF that] False p by auto
  have "\<not> mounted (deliver e ev c)"
    using False i l p
    by (cases ev)
       (auto simp add: connectionMonitor_def clearInterval_def handleScriptError_def
          split: option.splits sum.splits)
  then have "\<not> mounted (step e ev c)"
    using False by (cases ev) (simp_all add: step_def)
  then show ?thesis by (simp add: failed_guarded_def)
qed

lemma run_guarded:
  "failed_guarded c \<Longrightarrow> failed_guarded (run c evs)"
  by (induction evs arbitrary: c) (auto simp add: step_guarded)

lemma mount_guarded: "failed_guarded (mount e p)"
proof -
  have "failed_guarded (initial p)"
    by (simp add: failed_guarded_def initial_def)
  then show ?thesis
    unfolding mount_def by (rule runEffect_guarded)
qed

lemma failed_is_terminal_for_policy:
  assumes "mounted (run (mount e p) evs)" and "connectionStatus (run (mount e p) evs) = Failed"
  shows "handleConnectionIssue a (run (mount e p) evs) = run (mount e p) evs"
  using run_guarded [OF mount_guarded, of e p evs] assms
  by (simp add: failed_guarded_def handleConnectionIssue_def)

text \<open>
  The counter stays within the maximum on every current run: what can take it further is
  only a callback that outlived the render it was created in, of an interval or of a
  removed script.
\<close>

lemma disposeCurrent_fields:
  "reconnectAttempts (disposeCurrent c) = reconnectAttempts c"
  "isReconnectingRef (disposeCurrent c) = isReconnectingRef c"
  "script (disposeCurrent c) = script c"
  "cleanup (disposeCurrent c) = cleanup c"
  "jitsiApiRef (disposeCurrent c) = None"
  "props (disposeCurrent c) = props c"
  by (simp_all add: disposeCurrent_def split: option.splits)

lemma initializeJitsi_counter:
  "reconnectAttempts (initializeJitsi e cl c) = reconnectAttempts c"
  by (simp add: disposeCurrent_fields initializeJitsi_def Let_def)

lemma initializeJitsi_bounded:
  assumes "bounded c" and "cl_attempts cl = reconnectAttempts c"
  shows "bounded (initializeJitsi e cl c)"
proof (cases "apiLoaded e")
  case False
  then show ?thesis using assms
    by (auto simp add: disposeCurrent_fields initializeJitsi_def bounded_def loose_def
        split: option.splits)
next
  case True
  show ?thesis
  proof (cases "ctorThrows e")
    case True
    with \<open>apiLoaded e\<close> show ?thesis using assms
      by (simp add: disposeCurrent_fields initializeJitsi_def bounded_def loose_def Let_def)
  next
    case False
    with \<open>apiLoaded e\<close> show ?thesis using assms
      by (simp add: disposeCurrent_fields initializeJitsi_def bounded_def loose_def Let_def)
  qed
qed

lemma rerun_bounded:
  assumes "loose c"
  shows "bounded (runEffect e (runCleanup c))"
proof -
  define d where "d = runCleanup c"
  have d: "loose d \<and> script d = None \<and> reconnectAttempts d = reconnectAttempts c"
    using assms unfolding d_def
    by (cases "cleanup c") (auto simp add: disposeCurrent_fields runCleanup_def loose_def split: option.splits)
  show ?thesis
  proof (cases "apiLoaded e")
    case True
    then have "runEffect e d = (initializeJitsi e (current_closure d) d)\<lparr>cleanup := DisposeApi\<rparr>"
      by (simp add: disposeCurrent_fields runEffect_def)
    moreover have "bounded d"
      using d by (simp add: bounded_def)
    then have "bounded (initializeJitsi e (current_closure d) d)"
      by (rule initializeJitsi_bounded) (simp add: current_closure_def)
    moreover have "script (initializeJitsi e (current_closure d) d) = None"
      using d by (simp add: disposeCurrent_fields initializeJitsi_def Let_def)
    ultimately show ?thesis
      unfolding d_def [symmetric] by (auto simp add: disposeCurrent_fields bounded_def loose_def split: option.splits)
  next
    case False
    then show ?thesis
      unfolding d_def [symmetric] using d
      by (auto simp add: disposeCurrent_fields runEffect_def bounded_def loose_def current_closure_def split: option.splits)
  qed
qed

lemma policy_bounded:
  assumes "bounded c" and "isReconnectingRef c \<or> a = reconnectAttempts c"
  shows "bounded (flush e c (handleConnectionIssue a c))"
proof (cases "isReconnectingRef c")
  case True
  then show ?thesis using assms by (simp add: disposeCurrent_fields handleConnectionIssue_def flush_def)
next
  case False
  with assms have a: "a = reconnectAttempts c" by simp
  show ?thesis
  proof (cases "a < MAX_RECONNECT_ATTEMPTS")
    case True
    define c1 where "c1 = c\<lparr>isReconnectingRef := True, connectionStatus := Reconnecting,
      reconnectAttempts := reconnectAttempts c + 1\<rparr>"
    have h: "handleConnectionIssue a c = c1"
      using False True by (simp add: disposeCurrent_fields handleConnectionIssue_def Let_def c1_def)
    have "loose c1"
      using assms(1) True a by (simp add: disposeCurrent_fields c1_def bounded_def loose_def)
    then have "bounded (runEffect e (runCleanup c1))" by (rule rerun_bounded)
    moreover have "deps c1 \<noteq> deps c" by (simp add: disposeCurrent_fields c1_def deps_def)
    ultimately show ?thesis unfolding h by (simp add: disposeCurrent_fields flush_def)
  next
    case notless: False
    have h: "handleConnectionIssue a c = c\<lparr>isReconnectingRef := True, connectionStatus := Failed\<rparr>"
      using False notless by (simp add: disposeCurrent_fields handleConnectionIssue_def Let_def)
    show ?thesis unfolding h using assms(1)
      by (auto simp add: disposeCurrent_fields flush_def deps_def bounded_def loose_def split: option.splits)
  qed
qed

lemma status_bounded:
  "bounded c \<Longrightarrow> bounded (flush e c (c\<lparr>connectionStatus := s\<rparr>))"
  by (auto simp add: disposeCurrent_fields flush_def deps_def bounded_def loose_def split: option.splits)

lemma listener_bounded:
  assumes "bounded c" and "isReconnectingRef c \<or> a = reconnectAttempts c"
    and "listener a w c = Inr c'"
  shows "bounded (flush e c c')"
  using listener_cases [OF assms(3)] policy_bounded [OF assms(1,2), of e]
    status_bounded [OF assms(1), of e] status_bounded [OF assms(1), of e "connectionStatus c"]
  by auto

lemma policy_unmounted:
  assumes "bounded c"
  shows "bounded ((handleConnectionIssue a c)\<lparr>connectionStatus := s,
    reconnectAttempts := reconnectAttempts c\<rparr>)"
  using assms by (simp add: handleConnectionIssue_def Let_def bounded_def loose_def)

lemma keep_bounded:
  assumes "bounded x" and "reconnectAttempts x = n"
  shows "bounded (x\<lparr>connectionStatus := s, reconnectAttempts := n\<rparr>)"
  using assms by (auto simp add: bounded_def loose_def)

lemma clearInterval_bounded:
  "bounded (clearInterval m c) = bounded c"
  by (simp add: disposeCurrent_fields clearInterval_def bounded_def loose_def split: option.splits)

lemma clearInterval_policy:
  "clearInterval m (handleConnectionIssue a c) = handleConnectionIssue a (clearInterval m c)"
  by (simp add: disposeCurrent_fields clearInterval_def handleConnectionIssue_def Let_def)

lemma flush_deps:
  "deps c = deps c' \<Longrightarrow> flush e c x = flush e c' x"
  by (simp add: disposeCurrent_fields flush_def)

lemma removed_load_bounded:
  assumes "bounded c" and "current c (RemovedScriptLoad i)"
  shows "bounded (deliver e (RemovedScriptLoad i) c)"
    and "reconnectAttempts (deliver e (RemovedScriptLoad i) c) = reconnectAttempts c"
    and "deps (deliver e (RemovedScriptLoad i) c) = deps c"
proof -
  define c' where "c' = c\<lparr>removed := without i (removed c)\<rparr>"
  have b: "bounded c'"
    using assms(1) by (simp add: c'_def bounded_def loose_def)
  have n: "reconnectAttempts c' = reconnectAttempts c" and p: "props c' = props c"
    by (simp_all add: c'_def)
  have i: "bounded (initializeJitsi e (removed c ! i) c')" if "i < length (removed c)"
    using b by (rule initializeJitsi_bounded) (use that assms(2) n in simp)
  have d: "deps (initializeJitsi e cl c') = deps c" for cl
    using n p
    by (simp add: deps_def initializeJitsi_def disposeCurrent_fields Let_def)
  show "bounded (deliver e (RemovedScriptLoad i) c)"
    using i assms(1) by (simp add: c'_def)
  show "reconnectAttempts (deliver e (RemovedScriptLoad i) c) = reconnectAttempts c"
    by (simp add: initializeJitsi_counter)
  show "deps (deliver e (RemovedScriptLoad i) c) = deps c"
    using d by (simp add: c'_def)
qed

lemma script_load_bounded:
  assumes "bounded c"
  shows "bounded (deliver e ScriptLoad c)"
    and "reconnectAttempts (deliver e ScriptLoad c) = reconnectAttempts c"
    and "deps (deliver e ScriptLoad c) = deps c"
proof -
  define c' where "c' = c\<lparr>script := None\<rparr>"
  have b: "bounded c'"
    using assms by (simp add: c'_def bounded_def loose_def)
  have n: "reconnectAttempts c' = reconnectAttempts c" and p: "props c' = props c"
    by (simp_all add: c'_def)
  have i: "bounded (initializeJitsi e cl c')" if "script c = Some cl" for cl
    using b by (rule initializeJitsi_bounded) (use that assms n in \<open>simp add: bounded_def\<close>)
  have d: "deps (initializeJitsi e cl c') = deps c" for cl
    using n p
    by (simp add: deps_def initializeJitsi_def disposeCurrent_fields Let_def)
  show "bounded (deliver e ScriptLoad c)"
    using i assms by (simp add: c'_def split: option.splits)
  show "reconnectAttempts (deliver e ScriptLoad c) = reconnectAttempts c"
    by (simp add: initializeJitsi_counter split: option.splits)
  show "deps (deliver e ScriptLoad c) = deps c"
    using d by (simp add: c'_def split: option.splits)
qed

lemma step_bounded:
  assumes "bounded c" and "current c ev"
  shows "bounded (step e ev c)"
proof (cases "mounted c")
  case False
  show ?thesis
  proof (cases ev)
    case (Widget w)
    show ?thesis
    proof (cases "jitsiApiRef c")
      case None
      then show ?thesis
        using False Widget assms(1) by (simp add: step_def)
    next
      case (Some h)
      show ?thesis
      proof (cases "listener (h_attempts h) w c")
        case (Inl err)
        then show ?thesis
          using False Widget Some assms(1) by (simp add: step_def)
      next
        case (Inr c')
        from listener_cases [OF Inr]
        have "bounded (c'\<lparr>connectionStatus := connectionStatus c,
            reconnectAttempts := reconnectAttempts c\<rparr>)"
          using assms(1)
            policy_unmounted [OF assms(1), where a = "h_attempts h" and s = "connectionStatus c"]
          by auto
        then show ?thesis
          using False Widget Some Inr by (simp add: step_def)
      qed
    qed
  next
    case (Tick i)
    have "connectionMonitor e m c = clearInterval m c" for m
      using False by (simp add: connectionMonitor_def)
    then have "bounded (deliver e (Tick i) c)"
      and "reconnectAttempts (deliver e (Tick i) c) = reconnectAttempts c"
      using assms(1)
      by (simp_all add: clearInterval_bounded split: option.splits)
         (simp add: clearInterval_def)
    then show ?thesis
      using False Tick keep_bounded [of "deliver e (Tick i) c"] by (simp add: step_def)
  next
    case ScriptLoad
    then show ?thesis
      using False keep_bounded [OF script_load_bounded(1,2) [OF assms(1), of e]]
      by (simp add: step_def)
  next
    case ScriptError
    have "bounded (deliver e ScriptError c)
        \<and> reconnectAttempts (deliver e ScriptError c) = reconnectAttempts c"
      using assms(1)
      by (auto simp add: handleScriptError_def bounded_def loose_def split: option.splits)
    then show ?thesis
      using False ScriptError keep_bounded [of "deliver e ScriptError c"] by (simp add: step_def)
  next
    case (RemovedScriptLoad i)
    then show ?thesis
      using False assms(2)
        keep_bounded [OF removed_load_bounded(1,2) [OF assms(1), of i e]]
      by (simp add: step_def)
  next
    case (RemovedScriptError i)
    have "bounded (deliver e (RemovedScriptError i) c)
        \<and> reconnectAttempts (deliver e (RemovedScriptError i) c) = reconnectAttempts c"
      using assms(1)
      by (auto simp add: handleScriptError_def bounded_def loose_def)
    then show ?thesis
      using False RemovedScriptError keep_bounded [of "deliver e (RemovedScriptError i) c"]
      by (simp add: step_def)
  qed (use False assms(1) in \<open>simp_all add: step_def\<close>)
next
  case True
  show ?thesis
  proof (cases ev)
    case (Widget w)
    show ?thesis
    proof (cases "jitsiApiRef c")
      case None
      then show ?thesis using True Widget assms(1) by (simp add: step_def flush_def)
    next
      case (Some h)
      have r: "isReconnectingRef c \<or> h_attempts h = reconnectAttempts c"
        using assms(1) Some by (auto simp add: bounded_def loose_def)
      show ?thesis
      proof (cases "listener (h_attempts h) w c")
        case (Inl err)
        then show ?thesis using True Widget Some assms(1) by (simp add: step_def flush_def)
      next
        case (Inr c')
        from listener_bounded [OF assms(1) r Inr, of e] show ?thesis
          using True Widget Some Inr by (simp add: step_def)
      qed
    qed
  next
    case (Tick i)
    show ?thesis
    proof (cases "find (\<lambda>m. m_id m = i) (monitors c)")
      case None
      then show ?thesis using True Tick assms(1) by (simp add: step_def flush_def)
    next
      case (Some m)
      then have m: "m_attempts m = reconnectAttempts c"
        using assms(2) Tick by simp
      define c' where "c' = clearInterval m c"
      have d: "deps c = deps c'"
        by (simp add: c'_def clearInterval_def deps_def)
      have b: "bounded c'"
        using assms(1) by (simp add: c'_def clearInterval_bounded)
      have r: "isReconnectingRef c' \<or> m_attempts m = reconnectAttempts c'"
        using m by (simp add: c'_def clearInterval_def)
      have 1: "bounded (flush e c (clearInterval m (handleConnectionIssue (m_attempts m) c)))"
        unfolding clearInterval_policy flush_deps [OF d] c'_def [symmetric]
        using b r by (rule policy_bounded)
      have 2: "bounded (flush e c (clearInterval m c))"
        unfolding flush_deps [OF d] c'_def [symmetric] using b by (simp add: flush_def)
      have 3: "bounded (flush e c c)"
        using assms(1) by (simp add: flush_def)
      show ?thesis
        using True Tick Some 1 2 3 by (simp add: step_def connectionMonitor_def)
    qed
  next
    case ScriptLoad
    then show ?thesis
      using True script_load_bounded(1,3) [OF assms(1), of e] by (simp add: step_def flush_def)
  next
    case ScriptError
    then show ?thesis using True assms(1)
      by (auto simp add: step_def flush_def deps_def handleScriptError_def bounded_def loose_def
          split: option.splits)
  next
    case (RemovedScriptLoad i)
    then show ?thesis
      using True assms(2) removed_load_bounded(1,3) [OF assms(1), of i e]
      by (simp add: step_def flush_def)
  next
    case (RemovedScriptError i)
    then show ?thesis using True assms(1)
      by (auto simp add: step_def flush_def deps_def handleScriptError_def bounded_def loose_def)
  next
    case (SetProps p)
    have "loose (c\<lparr>props := p\<rparr>)"
      using assms(1) by (simp add: bounded_def loose_def)
    then have "bounded (runEffect e (runCleanup (c\<lparr>props := p\<rparr>)))"
      by (rule rerun_bounded)
    moreover have "bounded (c\<lparr>props := p\<rparr>)"
      using assms(1) by (simp add: bounded_def loose_def)
    ultimately show ?thesis using True SetProps by (simp add: step_def flush_def)
  next
    case Unmount
    have "bounded (runCleanup c)"
      using assms(1)
      by (cases "cleanup c")
         (auto simp add: disposeCurrent_fields runCleanup_def bounded_def loose_def
            split: option.splits)
    then show ?thesis using True Unmount by (simp add: step_def bounded_def loose_def)
  qed
qed

lemma run_bounded:
  "bounded c \<Longrightarrow> current_run c evs \<Longrightarrow> bounded (run c evs)"
proof (induction evs arbitrary: c)
  case Nil
  then show ?case by simp
next
  case (Cons x evs)
  obtain e ev where x: "x = (e, ev)" by (cases x)
  with Cons.prems have "bounded (step e ev c)" and "current_run (step e ev c) evs"
    by (simp_all add: disposeCurrent_fields step_bounded)
  then show ?case using x Cons.IH by simp
qed

lemma mount_bounded: "bounded (mount e p)"
proof -
  have "loose (initial p)"
    by (simp add: disposeCurrent_fields loose_def initial_def)
  moreover have "runCleanup (initial p) = initial p"
    by (simp add: disposeCurrent_fields runCleanup_def initial_def disposeCurrent_def)
  ultimately show ?thesis
    using rerun_bounded [of "initial p" e] by (simp add: disposeCurrent_fields mount_def)
qed

lemma counter_bounded_on_current_runs:
  "current_run (mount e p) evs \<Longrightarrow> reconnectAttempts (run (mount e p) evs) \<le> MAX_RECONNECT_ATTEMPTS"
  using run_bounded [OF mount_bounded, of e p evs] by (simp add: bounded_def loose_def)


text \<open>
  C2: on every sequence of events the counter never exceeds the maximum of 3, and a
  failed component is not changed by the reconnect policy. The code breaks the bound on
  the run below: the component is mounted, the widget reports three failures, each
  followed by a successful reconnect, and then the interval of the first handle fires
  while the query throws. That interval was never cleared and holds the handler of the
  first render, which captured the counter 0, so the test
  \<^verbatim>\<open>reconnectAttempts < MAX_RECONNECT_ATTEMPTS\<close> succeeds and the counter becomes 4.
\<close>

theorem stale_monitor_exceeds_max:
  "reconnectAttempts (run started [failure, failure, failure]) = 3
   \<and> find (\<lambda>m. m_id m = 0) (monitors (run started [failure, failure, failure]))
       = Some \<lparr> m_id = 0, m_attempts = 0 \<rparr>
   \<and> reconnectAttempts (run started [failure, failure, failure, (envQueryThrows, Tick 0)]) = 4
   \<and> MAX_RECONNECT_ATTEMPTS
       < reconnectAttempts (run started [failure, failure, failure, (envQueryThrows, Tick 0)])"
  by (simp add: input_defs effect_defs handler_defs)

subsection \<open>Three failures in a row\<close>

text \<open>
  C3, as stated: from the connected state with counter 0, three \<^verbatim>\<open>connectionFailed\<close>
  events end in the failed state with counter 3 and no handle is created after the third.
  On the code the third failure is still below the maximum when it is handled: a fourth
  handle is constructed and the status is connected.
\<close>

theorem three_failures_still_connected:
  "connectionStatus started = Connected \<and> reconnectAttempts started = 0
   \<and> connectionStatus (run started [failure, failure, failure]) = Connected
   \<and> reconnectAttempts (run started [failure, failure, failure]) = 3
   \<and> constructed (run started [failure, failure]) = 3
   \<and> constructed (run started [failure, failure, failure]) = 4"
  by (simp add: input_defs effect_defs handler_defs)

text \<open>
  C3, amended: from a connected component in step with counter 0, with the library loaded
  and the constructor succeeding, three \<^verbatim>\<open>connectionFailed\<close> events each create a new
  handle and leave the status connected with counter 3; the fourth ends in the failed
  state, with counter 3, no further handle constructed and the held handle unchanged.
\<close>

theorem fourth_failure_fails:
  assumes "in_step c" and "connectionStatus c = Connected" and "reconnectAttempts c = 0"
    and "apiLoaded e1 \<and> \<not> ctorThrows e1" and "apiLoaded e2 \<and> \<not> ctorThrows e2"
    and "apiLoaded e3 \<and> \<not> ctorThrows e3"
  shows "connectionStatus (run c [(e1, Widget ConnectionFailed), (e2, Widget ConnectionFailed),
            (e3, Widget ConnectionFailed)]) = Connected
    \<and> reconnectAttempts (run c [(e1, Widget ConnectionFailed), (e2, Widget ConnectionFailed),
            (e3, Widget ConnectionFailed)]) = 3
    \<and> constructed (run c [(e1, Widget ConnectionFailed), (e2, Widget ConnectionFailed),
            (e3, Widget ConnectionFailed)]) = constructed c + 3
    \<and> connectionStatus (run c [(e1, Widget ConnectionFailed), (e2, Widget ConnectionFailed),
            (e3, Widget ConnectionFailed), (e4, Widget ConnectionFailed)]) = Failed
    \<and> reconnectAttempts (run c [(e1, Widget ConnectionFailed), (e2, Widget ConnectionFailed),
            (e3, Widget ConnectionFailed), (e4, Widget ConnectionFailed)]) = 3
    \<and> constructed (run c [(e1, Widget ConnectionFailed), (e2, Widget ConnectionFailed),
            (e3, Widget ConnectionFailed), (e4, Widget ConnectionFailed)]) = constructed c + 3
    \<and> jitsiApiRef (run c [(e1, Widget ConnectionFailed), (e2, Widget ConnectionFailed),
            (e3, Widget ConnectionFailed), (e4, Widget ConnectionFailed)])
        = jitsiApiRef (run c [(e1, Widget ConnectionFailed), (e2, Widget ConnectionFailed),
            (e3, Widget ConnectionFailed)])"
proof -
  define c1 where "c1 = step e1 (Widget ConnectionFailed) c"
  define c2 where "c2 = step e2 (Widget ConnectionFailed) c1"
  define c3 where "c3 = step e3 (Widget ConnectionFailed) c2"
  define c4 where "c4 = step e4 (Widget ConnectionFailed) c3"
  have s1: "in_step c1 \<and> reconnectAttempts c1 = 1 \<and> constructed c1 = constructed c + 1"
    unfolding c1_def
    using reconnect_when_below_max [of c e1] assms by (simp add: MAX_RECONNECT_ATTEMPTS_def)
  have s2: "in_step c2 \<and> reconnectAttempts c2 = 2 \<and> constructed c2 = constructed c + 2"
    unfolding c2_def
    using reconnect_when_below_max [of c1 e2] s1 assms by (simp add: MAX_RECONNECT_ATTEMPTS_def)
  have s3: "in_step c3 \<and> connectionStatus c3 = Connected \<and> reconnectAttempts c3 = 3
      \<and> constructed c3 = constructed c + 3"
    unfolding c3_def
    using reconnect_when_below_max [of c2 e3] s2 assms by (simp add: MAX_RECONNECT_ATTEMPTS_def)
  have s4: "c4 = c3\<lparr>isReconnectingRef := True, connectionStatus := Failed\<rparr>"
    unfolding c4_def
    using fail_when_at_max [of c3 e4] s3 by (simp add: MAX_RECONNECT_ATTEMPTS_def)
  have r3: "run c [(e1, Widget ConnectionFailed), (e2, Widget ConnectionFailed),
            (e3, Widget ConnectionFailed)] = c3"
    by (simp add: c1_def c2_def c3_def)
  have r4: "run c [(e1, Widget ConnectionFailed), (e2, Widget ConnectionFailed),
            (e3, Widget ConnectionFailed), (e4, Widget ConnectionFailed)] = c4"
    by (simp add: c1_def c2_def c3_def c4_def)
  show ?thesis
    unfolding r3 r4 using s3 s4 by simp
qed

theorem fourth_failure_fails_witness:
  "in_step started \<and> connectionStatus started = Connected \<and> reconnectAttempts started = 0
   \<and> apiLoaded envOK \<and> \<not> ctorThrows envOK
   \<and> connectionStatus (run started [failure, failure, failure]) = Connected
   \<and> reconnectAttempts (run started [failure, failure, failure]) = 3
   \<and> constructed (run started [failure, failure, failure]) = constructed started + 3
   \<and> connectionStatus (run started [failure, failure, failure, failure]) = Failed
   \<and> reconnectAttempts (run started [failure, failure, failure, failure]) = 3
   \<and> constructed (run started [failure, failure, failure, failure]) = constructed started + 3"
proof -
  have a: "in_step started" and b: "connectionStatus started = Connected"
    and c: "reconnectAttempts started = 0"
    by (simp_all add: in_step_def input_defs effect_defs)
  have d: "apiLoaded envOK \<and> \<not> ctorThrows envOK"
    by (simp add: envOK_def)
  from fourth_failure_fails [OF a b c d d d, of envOK] a b c d show ?thesis
    unfolding failure_def by simp
qed

subsection \<open>Teardown\<close>

text \<open>
  C4: teardown disposes the handle and cancels the interval on every exit path. After an
  unmount of a started component the handle is disposed and the interval is still set;
  after a change of the room name both the old and the new interval are set, and the old
  one stays set when it fires, since the ref holds the new handle by then; and when the
  effect itself appended the script element, its cleanup only removes that element, so
  an unmount after the script has loaded leaves the handle undisposed as well.
\<close>

theorem teardown_leaves_monitor_and_handle:
  "monitors (step envOK Unmount started) = [\<lparr> m_id = 0, m_attempts = 0 \<rparr>]
   \<and> jitsiApiRef (step envOK Unmount started) = None
   \<and> disposed (step envOK Unmount started) = [0]
   \<and> map m_id (monitors (step envOK (SetProps (room\<lparr>roomName := ''other''\<rparr>)) started)) = [0, 1]
   \<and> map m_id (monitors (run started
         [(envOK, SetProps (room\<lparr>roomName := ''other''\<rparr>)), (envOK, Tick 0)])) = [0, 1]
   \<and> map_option h_id (jitsiApiRef (run (mount envNoApi room) [(envOK, ScriptLoad), (envOK, Unmount)])) = Some 0
   \<and> disposed (run (mount envNoApi room) [(envOK, ScriptLoad), (envOK, Unmount)]) = []
   \<and> map m_id (monitors (run (mount envNoApi room) [(envOK, ScriptLoad), (envOK, Unmount)])) = [0]"
  by (simp add: input_defs effect_defs handler_defs)

subsection \<open>Starting\<close>

text \<open>
  C5, as stated: once the handle is constructed the status is connecting, and becomes
  connected only on a later event. After a mount that found the library loaded the handle
  exists and the status is already connected (line 203).
\<close>

theorem start_sets_connected:
  "jitsiApiRef started \<noteq> None \<and> connectionStatus started = Connected \<and> connectionStatus started \<noteq> Connecting"
  by (simp add: input_defs effect_defs handler_defs)

text \<open>
  C5, amended: \<^verbatim>\<open>initializeJitsi\<close> sets the status to connected as soon as the handle
  is constructed, and to error exactly when the library is not loaded or the constructor
  throws; the effect calls it when the library is loaded and otherwise waits for the
  script, whose \<^verbatim>\<open>onload\<close> calls it and whose \<^verbatim>\<open>onerror\<close> sets the status to error.
\<close>

theorem start_outcome:
  "connectionStatus (initializeJitsi e cl c) = (if apiLoaded e \<and> \<not> ctorThrows e then Connected else Error)
   \<and> (connectionStatus (initializeJitsi e cl c) = Error \<longleftrightarrow> \<not> apiLoaded e \<or> ctorThrows e)
   \<and> (apiLoaded e \<and> \<not> ctorThrows e \<longrightarrow>
        jitsiApiRef (initializeJitsi e cl c) =
          Some \<lparr> h_id = constructed c, h_domain = b_domain (cl_bindings cl),
                 h_options = options (cl_bindings cl), h_attempts = cl_attempts cl \<rparr>)
   \<and> (apiLoaded e \<longrightarrow> connectionStatus (runEffect e c) = (if ctorThrows e then Error else Connected))
   \<and> (\<not> apiLoaded e \<longrightarrow> connectionStatus (runEffect e c) = connectionStatus c \<and> script (runEffect e c) \<noteq> None)
   \<and> (script c \<noteq> None \<longrightarrow> connectionStatus (deliver e ScriptLoad c) = (if apiLoaded e \<and> \<not> ctorThrows e then Connected else Error))
   \<and> (script c \<noteq> None \<longrightarrow> connectionStatus (deliver e ScriptError c) = Error)"
  by (auto simp add: initializeJitsi_def disposeCurrent_def runEffect_def handleScriptError_def Let_def split: option.splits)

theorem start_outcome_witness:
  "apiLoaded envOK \<and> \<not> ctorThrows envOK
   \<and> connectionStatus (initializeJitsi envOK (current_closure (initial room)) (initial room)) = Connected
   \<and> map_option h_id (jitsiApiRef (initializeJitsi envOK (current_closure (initial room)) (initial room))) = Some 0
   \<and> connectionStatus (runEffect envOK (initial room)) = Connected
   \<and> connectionStatus (runEffect envCtorThrows (initial room)) = Error
   \<and> \<not> apiLoaded envNoApi
   \<and> connectionStatus (runEffect envNoApi (initial room)) = Connecting
   \<and> script (mount envNoApi room) \<noteq> None
   \<and> connectionStatus (deliver envOK ScriptLoad (mount envNoApi room)) = Connected
   \<and> connectionStatus (deliver envNoApi ScriptLoad (mount envNoApi room)) = Error
   \<and> connectionStatus (deliver envOK ScriptError (mount envNoApi room)) = Error"
proof -
  have a: "apiLoaded envOK \<and> \<not> ctorThrows envOK"
    and b: "apiLoaded envCtorThrows \<and> ctorThrows envCtorThrows"
    and c: "\<not> apiLoaded envNoApi"
    by (simp_all add: input_defs)
  have d: "script (mount envNoApi room) \<noteq> None"
    and i: "constructed (initial room) = 0" "connectionStatus (initial room) = Connecting"
    by (simp_all add: input_defs effect_defs)
  from start_outcome [where e = envOK and c = "initial room" and cl = "current_closure (initial room)"] a i
  have 1: "connectionStatus (initializeJitsi envOK (current_closure (initial room)) (initial room)) = Connected
      \<and> map_option h_id (jitsiApiRef (initializeJitsi envOK (current_closure (initial room)) (initial room))) = Some 0
      \<and> connectionStatus (runEffect envOK (initial room)) = Connected"
    by simp
  from start_outcome [where e = envCtorThrows and c = "initial room"] b
  have 2: "connectionStatus (runEffect envCtorThrows (initial room)) = Error"
    by simp
  from start_outcome [where e = envNoApi and c = "initial room"] c i
  have 3: "connectionStatus (runEffect envNoApi (initial room)) = Connecting"
    by simp
  from start_outcome [where e = envOK and c = "mount envNoApi room"] a d
  have 4: "connectionStatus (deliver envOK ScriptLoad (mount envNoApi room)) = Connected
      \<and> connectionStatus (deliver envOK ScriptError (mount envNoApi room)) = Error"
    by simp
  from start_outcome [where e = envNoApi and c = "mount envNoApi room"] c d
  have 5: "connectionStatus (deliver envNoApi ScriptLoad (mount envNoApi room)) = Error"
    by simp
  from a c d 1 2 3 4 5 show ?thesis by simp
qed

subsection \<open>The liveness probe\<close>

text \<open>
  C6, as stated: the probe invokes the reconnect policy and then cancels its interval both
  when the query throws and when the container is detached. With the container detached
  the callback only clears its interval: the status, the counter and the flag are as
  before, although the policy would have changed them.
\<close>

theorem probe_detached_no_reconnect:
  "jitsiApiRef started \<noteq> None
   \<and> monitors started = [\<lparr> m_id = 0, m_attempts = 0 \<rparr>]
   \<and> step envDetached (Tick 0) started = started\<lparr>monitors := []\<rparr>
   \<and> handleConnectionIssue 0 started \<noteq> started"
  by (simp add: input_defs effect_defs handler_defs)

text \<open>
  C6, amended: for a mounted component holding a handle, the probe invokes the reconnect
  policy and then clears its own interval when the query throws; it clears its own
  interval without invoking the policy when the container is detached; and it does
  nothing when the query returns.
\<close>

theorem probe_cases:
  assumes "find (\<lambda>x. m_id x = i) (monitors c) = Some m" and "mounted c" and "jitsiApiRef c \<noteq> None"
  shows "(containerAttached e \<and> queryThrows e \<longrightarrow>
            deliver e (Tick i) c = clearInterval m (handleConnectionIssue (m_attempts m) c))
       \<and> (\<not> containerAttached e \<longrightarrow> deliver e (Tick i) c = clearInterval m c)
       \<and> (containerAttached e \<and> \<not> queryThrows e \<longrightarrow> deliver e (Tick i) c = c)
       \<and> (\<not> containerAttached e \<or> queryThrows e \<longrightarrow>
            find (\<lambda>x. m_id x = i) (monitors (deliver e (Tick i) c)) = None)"
proof -
  have i: "m_id m = i"
    using assms(1) by (auto simp: find_Some_iff)
  have gone: "find (\<lambda>x. m_id x = i) (monitors (clearInterval m c')) = None" for c'
    using i by (auto simp: clearInterval_def find_None_iff)
  have tick: "deliver e (Tick i) c = connectionMonitor e m c"
    using assms(1) by simp
  show ?thesis
    unfolding tick using assms(2,3) gone
    by (auto simp add: connectionMonitor_def)
qed

theorem probe_cases_witness:
  "find (\<lambda>x. m_id x = 0) (monitors started) = Some \<lparr> m_id = 0, m_attempts = 0 \<rparr>
   \<and> mounted started \<and> jitsiApiRef started \<noteq> None
   \<and> deliver envQueryThrows (Tick 0) started
       = clearInterval \<lparr> m_id = 0, m_attempts = 0 \<rparr> (handleConnectionIssue 0 started)
   \<and> deliver envDetached (Tick 0) started = clearInterval \<lparr> m_id = 0, m_attempts = 0 \<rparr> started
   \<and> deliver envOK (Tick 0) started = started"
proof -
  have f: "find (\<lambda>x. m_id x = 0) (monitors started) = Some \<lparr> m_id = 0, m_attempts = 0 \<rparr>"
    by (simp add: input_defs effect_defs)
  have m: "mounted started"
    by (simp add: input_defs effect_defs)
  have h: "jitsiApiRef started \<noteq> None"
    by (simp add: input_defs effect_defs)
  have q: "containerAttached envQueryThrows \<and> queryThrows envQueryThrows"
    and d: "\<not> containerAttached envDetached"
    and k: "containerAttached envOK \<and> \<not> queryThrows envOK"
    by (simp_all add: input_defs)
  from probe_cases [OF f m h, of envQueryThrows] probe_cases [OF f m h, of envDetached]
    probe_cases [OF f m h, of envOK] f m h q d k
  show ?thesis by simp
qed

subsection \<open>Idempotence of the reconnect policy\<close>

text \<open>
  C7: the reconnect policy is idempotent. A second invocation, whatever counter its
  closure captured, changes nothing; an invocation while the flag is set changes nothing;
  two invocations raise the counter by at most one; and a \<^verbatim>\<open>connectionFailed\<close> event
  handled right after a failed probe, before React renders again, changes nothing.
\<close>

theorem handleConnectionIssue_idempotent:
  "handleConnectionIssue a2 (handleConnectionIssue a1 c) = handleConnectionIssue a1 c
   \<and> (isReconnectingRef c \<longrightarrow> handleConnectionIssue a1 c = c)
   \<and> reconnectAttempts (handleConnectionIssue a2 (handleConnectionIssue a1 c)) \<le> reconnectAttempts c + 1
   \<and> (mounted c \<and> jitsiApiRef c \<noteq> None \<and> containerAttached e \<and> queryThrows e
        \<and> find (\<lambda>m. m_id m = i) (monitors c) \<noteq> None \<longrightarrow>
        deliver e' (Widget ConnectionFailed) (deliver e (Tick i) c) = deliver e (Tick i) c)"
  by (auto simp add: handleConnectionIssue_def Let_def connectionMonitor_def clearInterval_def handleConnectionFailure_def
      split: option.splits)

theorem handleConnectionIssue_idempotent_witness:
  "\<not> isReconnectingRef started
   \<and> reconnectAttempts (handleConnectionIssue 0 started) = 1
   \<and> handleConnectionIssue 0 (handleConnectionIssue 0 started) = handleConnectionIssue 0 started
   \<and> reconnectAttempts (handleConnectionIssue 0 (handleConnectionIssue 0 started)) = 1
   \<and> deliver envOK (Widget ConnectionFailed) (deliver envQueryThrows (Tick 0) started)
       = deliver envQueryThrows (Tick 0) started"
proof -
  have a: "\<not> isReconnectingRef started"
    and b: "reconnectAttempts (handleConnectionIssue 0 started) = 1"
    and h: "mounted started \<and> jitsiApiRef started \<noteq> None \<and> containerAttached envQueryThrows
        \<and> queryThrows envQueryThrows \<and> find (\<lambda>m. m_id m = 0) (monitors started) \<noteq> None"
    by (simp_all add: input_defs effect_defs handler_defs)
  from handleConnectionIssue_idempotent [of 0 0 started envQueryThrows 0 envOK] a b h
  show ?thesis by simp
qed

subsection \<open>Where each failure goes\<close>

text \<open>
  What the reconnect policy does, and what the next render makes of it: nothing while a
  reconnect is in flight; below the maximum a new handle, whose listeners capture the
  new counter; at the maximum the failed status.
\<close>

lemma disposeCurrent_kept:
  "constructed (disposeCurrent c) = constructed c"
  "monitors (disposeCurrent c) = monitors c"
  "connectionStatus (disposeCurrent c) = connectionStatus c"
  by (simp_all add: disposeCurrent_def split: option.splits)

lemma runCleanup_kept:
  "reconnectAttempts (runCleanup c) = reconnectAttempts c"
  "constructed (runCleanup c) = constructed c"
  "props (runCleanup c) = props c"
  by (cases "cleanup c"; simp add: runCleanup_def disposeCurrent_fields disposeCurrent_kept)+

lemma runEffect_counter:
  "reconnectAttempts (runEffect e c) = reconnectAttempts c"
  by (simp add: runEffect_def initializeJitsi_counter)

lemma flush_counter:
  "reconnectAttempts (flush e b c) = reconnectAttempts c"
  by (simp add: flush_def runEffect_counter runCleanup_kept)

lemma policy_in_flight:
  "isReconnectingRef c \<Longrightarrow> flush e c (handleConnectionIssue a c) = c"
  by (simp add: handleConnectionIssue_def flush_def)

lemma initializeJitsi_succeeds:
  assumes "apiLoaded e" and "\<not> ctorThrows e"
  shows "reconnectAttempts (initializeJitsi e cl c) = reconnectAttempts c"
    and "constructed (initializeJitsi e cl c) = constructed c + 1"
    and "connectionStatus (initializeJitsi e cl c) = Connected"
    and "\<not> isReconnectingRef (initializeJitsi e cl c)"
    and "jitsiApiRef (initializeJitsi e cl c) =
        Some \<lparr> h_id = constructed c, h_domain = b_domain (cl_bindings cl),
               h_options = options (cl_bindings cl), h_attempts = cl_attempts cl \<rparr>"
  using assms
  by (simp_all add: initializeJitsi_def Let_def disposeCurrent_fields disposeCurrent_kept)

lemma policy_retries:
  assumes "\<not> isReconnectingRef c" and "a < MAX_RECONNECT_ATTEMPTS"
    and "apiLoaded e" and "\<not> ctorThrows e"
  shows "reconnectAttempts (flush e c (handleConnectionIssue a c)) = reconnectAttempts c + 1
    \<and> constructed (flush e c (handleConnectionIssue a c)) = constructed c + 1
    \<and> connectionStatus (flush e c (handleConnectionIssue a c)) = Connected
    \<and> \<not> isReconnectingRef (flush e c (handleConnectionIssue a c))
    \<and> jitsiApiRef (flush e c (handleConnectionIssue a c)) =
        Some \<lparr> h_id = constructed c, h_domain = b_domain (destructure (props c)),
               h_options = options (destructure (props c)),
               h_attempts = reconnectAttempts c + 1 \<rparr>"
proof -
  define c1 where "c1 = c\<lparr>isReconnectingRef := True, connectionStatus := Reconnecting,
    reconnectAttempts := reconnectAttempts c + 1\<rparr>"
  define d where "d = runCleanup c1"
  define cl where "cl = current_closure d"
  have h: "handleConnectionIssue a c = c1"
    using assms(1,2) by (simp add: handleConnectionIssue_def Let_def c1_def)
  have "deps c1 \<noteq> deps c"
    by (simp add: c1_def deps_def)
  then have f: "flush e c c1 = (initializeJitsi e cl d)\<lparr>cleanup := DisposeApi\<rparr>"
    using assms(3) by (simp add: flush_def runEffect_def d_def cl_def)
  have d: "reconnectAttempts d = reconnectAttempts c + 1" "constructed d = constructed c"
    "props d = props c"
    by (simp_all add: d_def runCleanup_kept c1_def)
  have cl: "cl_attempts cl = reconnectAttempts c + 1" "cl_bindings cl = destructure (props c)"
    by (simp_all add: cl_def current_closure_def d)
  show ?thesis
    unfolding h f using initializeJitsi_succeeds [OF assms(3,4), of cl d] d cl
    by simp
qed

lemma policy_gives_up:
  assumes "\<not> isReconnectingRef c" and "MAX_RECONNECT_ATTEMPTS \<le> a"
  shows "flush e c (handleConnectionIssue a c)
    = c\<lparr>isReconnectingRef := True, connectionStatus := Failed\<rparr>"
  using assms by (simp add: handleConnectionIssue_def Let_def flush_def deps_def)

lemma probe_throws_step:
  assumes "mounted c" and "jitsiApiRef c \<noteq> None"
    and "find (\<lambda>x. m_id x = i) (monitors c) = Some m"
    and "containerAttached e" and "queryThrows e"
  shows "step e (Tick i) c
    = flush e (clearInterval m c) (handleConnectionIssue (m_attempts m) (clearInterval m c))"
proof -
  have "deps c = deps (clearInterval m c)"
    by (simp add: clearInterval_def deps_def)
  then have "flush e c x = flush e (clearInterval m c) x" for x
    by (rule flush_deps)
  then show ?thesis
    using assms
    by (auto simp add: step_def connectionMonitor_def clearInterval_policy)
qed

text \<open>
  An \<^verbatim>\<open>errorOccurred\<close> event whose \<^verbatim>\<open>error\<close> field is an object, as the widget library
  sends it, makes the listener throw before it reaches the policy.
\<close>

lemma errorOccurred_object_throws:
  "listener a (ErrorOccurred (Some Other)) c = Inl TypeError
   \<and> (mounted c \<longrightarrow> step e (Widget (ErrorOccurred (Some Other))) c = c)"
  by (simp add: handleErrorOccurred_def step_def flush_def split: option.splits)

text \<open>
  C8, as stated: a probe failure, like a failed connection, a detected suspend and a
  service error, goes into the reconnect policy. A probe fails when its query throws or
  when the container is detached; in the second case the callback only clears its
  interval. After one reconnect the interval of the held handle fires with the container
  detached: counter, handles, status and flag are as before, where the same interval
  firing with a throwing query takes the counter from 1 to 2.
\<close>

theorem detached_probe_skips_policy:
  "find (\<lambda>m. m_id m = 1) (monitors (run started [failure])) = Some \<lparr> m_id = 1, m_attempts = 1 \<rparr>
   \<and> map_option h_id (jitsiApiRef (run started [failure])) = Some 1
   \<and> reconnectAttempts (run started [failure]) = 1
   \<and> constructed (run started [failure]) = 2
   \<and> reconnectAttempts (run started [failure, (envDetached, Tick 1)]) = 1
   \<and> constructed (run started [failure, (envDetached, Tick 1)]) = 2
   \<and> connectionStatus (run started [failure, (envDetached, Tick 1)]) = Connected
   \<and> \<not> isReconnectingRef (run started [failure, (envDetached, Tick 1)])
   \<and> reconnectAttempts (run started [failure, (envQueryThrows, Tick 1)]) = 2
   \<and> constructed (run started [failure, (envQueryThrows, Tick 1)]) = 3"
  by (simp add: input_defs effect_defs handler_defs)

text \<open>
  C8, amended: a script load failure and a constructor failure set the status to error,
  leave the counter and the flag alone and construct nothing. A failed connection, a
  detected suspend, an \<^verbatim>\<open>errorOccurred\<close> whose \<^verbatim>\<open>error\<close> field is a string containing
  \<^verbatim>\<open>service\<close> or \<^verbatim>\<open>limit\<close>, and a probe whose query throws (which also clears its
  interval) all run the reconnect policy with the counter their closure captured; a probe
  that finds the container detached only clears its interval. The policy does nothing
  while a reconnect is in flight; otherwise, below the maximum of 3 it sets the flag and
  the reconnecting status and adds one to the counter, and the next render constructs a
  new handle (library loaded, constructor succeeding); at the maximum it sets the failed
  status and constructs nothing. Run with the current counter, it never takes a counter
  that is at most 3 above 3.
\<close>

theorem failure_routing:
  "(mounted c \<and> script c \<noteq> None \<longrightarrow>
      step e ScriptError c = c\<lparr>script := None, connectionStatus := Error\<rparr>)
   \<and> (apiLoaded e \<and> ctorThrows e \<longrightarrow>
        initializeJitsi e cl c = (disposeCurrent c)\<lparr>connectionStatus := Error\<rparr>
        \<and> reconnectAttempts (initializeJitsi e cl c) = reconnectAttempts c
        \<and> isReconnectingRef (initializeJitsi e cl c) = isReconnectingRef c
        \<and> constructed (initializeJitsi e cl c) = constructed c
        \<and> jitsiApiRef (initializeJitsi e cl c) = None)
   \<and> (mounted c \<and> jitsiApiRef c = Some h \<longrightarrow>
        step e (Widget ConnectionFailed) c = flush e c (handleConnectionIssue (h_attempts h) c)
        \<and> step e (Widget SuspendDetected) c = flush e c (handleConnectionIssue (h_attempts h) c)
        \<and> (str_includes s ''service'' \<or> str_includes s ''limit'' \<longrightarrow>
              step e (Widget (ErrorOccurred (Some (Text s)))) c
                = flush e c (handleConnectionIssue (h_attempts h) c)))
   \<and> (mounted c \<and> jitsiApiRef c \<noteq> None \<and> find (\<lambda>x. m_id x = i) (monitors c) = Some m \<longrightarrow>
        (containerAttached e \<and> queryThrows e \<longrightarrow>
            step e (Tick i) c
              = flush e (clearInterval m c)
                  (handleConnectionIssue (m_attempts m) (clearInterval m c)))
        \<and> (\<not> containerAttached e \<longrightarrow> step e (Tick i) c = clearInterval m c))
   \<and> (isReconnectingRef c \<longrightarrow> flush e c (handleConnectionIssue a c) = c)
   \<and> (\<not> isReconnectingRef c \<and> a < MAX_RECONNECT_ATTEMPTS \<longrightarrow>
        handleConnectionIssue a c
          = c\<lparr>isReconnectingRef := True, connectionStatus := Reconnecting,
              reconnectAttempts := reconnectAttempts c + 1\<rparr>)
   \<and> (\<not> isReconnectingRef c \<and> a < MAX_RECONNECT_ATTEMPTS \<and> apiLoaded e \<and> \<not> ctorThrows e \<longrightarrow>
        reconnectAttempts (flush e c (handleConnectionIssue a c)) = reconnectAttempts c + 1
        \<and> constructed (flush e c (handleConnectionIssue a c)) = constructed c + 1
        \<and> connectionStatus (flush e c (handleConnectionIssue a c)) = Connected
        \<and> map_option h_attempts (jitsiApiRef (flush e c (handleConnectionIssue a c)))
            = Some (reconnectAttempts c + 1))
   \<and> (\<not> isReconnectingRef c \<and> MAX_RECONNECT_ATTEMPTS \<le> a \<longrightarrow>
        flush e c (handleConnectionIssue a c)
          = c\<lparr>isReconnectingRef := True, connectionStatus := Failed\<rparr>)
   \<and> (a = reconnectAttempts c \<and> reconnectAttempts c \<le> MAX_RECONNECT_ATTEMPTS \<longrightarrow>
        reconnectAttempts (flush e c (handleConnectionIssue a c)) \<le> MAX_RECONNECT_ATTEMPTS)"
proof -
  have 1: "mounted c \<and> script c \<noteq> None \<longrightarrow>
      step e ScriptError c = c\<lparr>script := None, connectionStatus := Error\<rparr>"
    by (auto simp add: step_def flush_def deps_def handleScriptError_def)
  have 2: "apiLoaded e \<and> ctorThrows e \<longrightarrow>
        initializeJitsi e cl c = (disposeCurrent c)\<lparr>connectionStatus := Error\<rparr>
        \<and> reconnectAttempts (initializeJitsi e cl c) = reconnectAttempts c
        \<and> isReconnectingRef (initializeJitsi e cl c) = isReconnectingRef c
        \<and> constructed (initializeJitsi e cl c) = constructed c
        \<and> jitsiApiRef (initializeJitsi e cl c) = None"
    by (auto simp add: initializeJitsi_def disposeCurrent_def split: option.splits)
  have 3: "mounted c \<and> jitsiApiRef c = Some h \<longrightarrow>
        step e (Widget ConnectionFailed) c = flush e c (handleConnectionIssue (h_attempts h) c)
        \<and> step e (Widget SuspendDetected) c = flush e c (handleConnectionIssue (h_attempts h) c)
        \<and> (str_includes s ''service'' \<or> str_includes s ''limit'' \<longrightarrow>
              step e (Widget (ErrorOccurred (Some (Text s)))) c
                = flush e c (handleConnectionIssue (h_attempts h) c))"
    by (auto simp add: step_def handleConnectionFailure_def handleSuspendDetected_def
        handleErrorOccurred_def)
  have 4: "mounted c \<and> jitsiApiRef c \<noteq> None \<and> find (\<lambda>x. m_id x = i) (monitors c) = Some m \<longrightarrow>
        (containerAttached e \<and> queryThrows e \<longrightarrow>
            step e (Tick i) c
              = flush e (clearInterval m c)
                  (handleConnectionIssue (m_attempts m) (clearInterval m c)))
        \<and> (\<not> containerAttached e \<longrightarrow> step e (Tick i) c = clearInterval m c)"
    using probe_throws_step [of c i m e]
    by (auto simp add: step_def connectionMonitor_def flush_def deps_def clearInterval_def)
  have 5: "isReconnectingRef c \<longrightarrow> flush e c (handleConnectionIssue a c) = c"
    by (simp add: policy_in_flight)
  have 6: "\<not> isReconnectingRef c \<and> a < MAX_RECONNECT_ATTEMPTS \<longrightarrow>
        handleConnectionIssue a c
          = c\<lparr>isReconnectingRef := True, connectionStatus := Reconnecting,
              reconnectAttempts := reconnectAttempts c + 1\<rparr>"
    by (simp add: handleConnectionIssue_def Let_def)
  have 7: "\<not> isReconnectingRef c \<and> a < MAX_RECONNECT_ATTEMPTS \<and> apiLoaded e \<and> \<not> ctorThrows e \<longrightarrow>
        reconnectAttempts (flush e c (handleConnectionIssue a c)) = reconnectAttempts c + 1
        \<and> constructed (flush e c (handleConnectionIssue a c)) = constructed c + 1
        \<and> connectionStatus (flush e c (handleConnectionIssue a c)) = Connected
        \<and> map_option h_attempts (jitsiApiRef (flush e c (handleConnectionIssue a c)))
            = Some (reconnectAttempts c + 1)"
    using policy_retries [of c a e] by simp
  have 8: "\<not> isReconnectingRef c \<and> MAX_RECONNECT_ATTEMPTS \<le> a \<longrightarrow>
        flush e c (handleConnectionIssue a c)
          = c\<lparr>isReconnectingRef := True, connectionStatus := Failed\<rparr>"
    using policy_gives_up [of c a e] by simp
  have 9: "a = reconnectAttempts c \<and> reconnectAttempts c \<le> MAX_RECONNECT_ATTEMPTS \<longrightarrow>
        reconnectAttempts (flush e c (handleConnectionIssue a c)) \<le> MAX_RECONNECT_ATTEMPTS"
    by (auto simp add: flush_counter handleConnectionIssue_def Let_def)
  show ?thesis
    using 1 2 3 4 5 6 7 8 9 by - (intro conjI; assumption)
qed


theorem failure_routing_witness:
  "mounted (mount envNoApi room) \<and> script (mount envNoApi room) \<noteq> None
   \<and> connectionStatus (step envOK ScriptError (mount envNoApi room)) = Error
   \<and> reconnectAttempts (step envOK ScriptError (mount envNoApi room)) = 0
   \<and> constructed (step envOK ScriptError (mount envNoApi room)) = 0
   \<and> apiLoaded envCtorThrows \<and> ctorThrows envCtorThrows
   \<and> connectionStatus (initializeJitsi envCtorThrows (current_closure started) started) = Error
   \<and> reconnectAttempts (initializeJitsi envCtorThrows (current_closure started) started) = 0
   \<and> constructed (initializeJitsi envCtorThrows (current_closure started) started) = 1
   \<and> mounted started \<and> jitsiApiRef started \<noteq> None \<and> \<not> isReconnectingRef started
   \<and> reconnectAttempts started = 0 \<and> constructed started = 1
   \<and> reconnectAttempts (step envOK (Widget ConnectionFailed) started) = 1
   \<and> constructed (step envOK (Widget ConnectionFailed) started) = 2
   \<and> connectionStatus (step envOK (Widget ConnectionFailed) started) = Connected
   \<and> reconnectAttempts (step envOK (Widget SuspendDetected) started) = 1
   \<and> constructed (step envOK (Widget SuspendDetected) started) = 2
   \<and> str_includes ''rate limit exceeded'' ''limit''
   \<and> reconnectAttempts
        (step envOK (Widget (ErrorOccurred (Some (Text ''rate limit exceeded'')))) started) = 1
   \<and> constructed
        (step envOK (Widget (ErrorOccurred (Some (Text ''rate limit exceeded'')))) started) = 2
   \<and> find (\<lambda>x. m_id x = 0) (monitors started) = Some \<lparr> m_id = 0, m_attempts = 0 \<rparr>
   \<and> reconnectAttempts (step envQueryThrows (Tick 0) started) = 1
   \<and> constructed (step envQueryThrows (Tick 0) started) = 2
   \<and> step envDetached (Tick 0) started = clearInterval \<lparr> m_id = 0, m_attempts = 0 \<rparr> started
   \<and> isReconnectingRef (handleConnectionIssue 0 started)
   \<and> flush envOK (handleConnectionIssue 0 started)
        (handleConnectionIssue 0 (handleConnectionIssue 0 started))
       = handleConnectionIssue 0 started
   \<and> \<not> isReconnectingRef (run started [failure, failure, failure])
   \<and> reconnectAttempts (run started [failure, failure, failure]) = 3
   \<and> connectionStatus
        (flush envOK (run started [failure, failure, failure])
          (handleConnectionIssue 3 (run started [failure, failure, failure]))) = Failed
   \<and> reconnectAttempts
        (flush envOK (run started [failure, failure, failure])
          (handleConnectionIssue 3 (run started [failure, failure, failure]))) = 3"
proof -
  define m0 where "m0 = \<lparr> m_id = 0, m_attempts = 0 \<rparr>"
  define c0 where "c0 = clearInterval m0 started"
  define c3 where "c3 = run started [failure, failure, failure]"
  have a: "mounted (mount envNoApi room) \<and> script (mount envNoApi room) \<noteq> None"
    and a': "reconnectAttempts (mount envNoApi room) = 0 \<and> constructed (mount envNoApi room) = 0"
    by (simp_all add: input_defs effect_defs)
  have b: "apiLoaded envCtorThrows \<and> ctorThrows envCtorThrows"
    and ok: "apiLoaded envOK \<and> \<not> ctorThrows envOK"
    and q: "apiLoaded envQueryThrows \<and> \<not> ctorThrows envQueryThrows
      \<and> containerAttached envQueryThrows \<and> queryThrows envQueryThrows"
    and dt: "\<not> containerAttached envDetached"
    by (simp_all add: input_defs)
  obtain h where h: "jitsiApiRef started = Some h" "h_attempts h = 0"
    by (simp add: input_defs effect_defs)
  have s: "mounted started \<and> \<not> isReconnectingRef started \<and> reconnectAttempts started = 0
      \<and> constructed started = 1"
    and f: "find (\<lambda>x. m_id x = 0) (monitors started) = Some m0"
    by (simp_all add: input_defs effect_defs m0_def)
  have s0: "\<not> isReconnectingRef c0 \<and> reconnectAttempts c0 = 0 \<and> constructed c0 = 1"
    using s by (simp add: c0_def clearInterval_def)
  have i: "str_includes ''rate limit exceeded'' ''limit''"
    by simp
  have lt: "(0::nat) < MAX_RECONNECT_ATTEMPTS" and ge: "MAX_RECONNECT_ATTEMPTS \<le> 3"
    by (simp_all add: MAX_RECONNECT_ATTEMPTS_def)
  have p: "isReconnectingRef (handleConnectionIssue 0 started)"
    using s by (simp add: handleConnectionIssue_def Let_def)
  have t: "\<not> isReconnectingRef c3 \<and> reconnectAttempts c3 = 3"
    by (simp add: c3_def input_defs effect_defs handler_defs)
  from failure_routing [where c = "mount envNoApi room" and e = envOK] a a'
  have 1: "connectionStatus (step envOK ScriptError (mount envNoApi room)) = Error
      \<and> reconnectAttempts (step envOK ScriptError (mount envNoApi room)) = 0
      \<and> constructed (step envOK ScriptError (mount envNoApi room)) = 0"
    by simp
  from failure_routing [where c = started and e = envCtorThrows and cl = "current_closure started"]
    b s
  have 2: "connectionStatus (initializeJitsi envCtorThrows (current_closure started) started) = Error
      \<and> reconnectAttempts (initializeJitsi envCtorThrows (current_closure started) started) = 0
      \<and> constructed (initializeJitsi envCtorThrows (current_closure started) started) = 1"
    by (auto simp add: disposeCurrent_def split: option.splits)
  from failure_routing [where c = started and e = envOK and h = h
      and s = "''rate limit exceeded''"] h s i
  have r: "step envOK (Widget ConnectionFailed) started
        = flush envOK started (handleConnectionIssue 0 started)
      \<and> step envOK (Widget SuspendDetected) started
        = flush envOK started (handleConnectionIssue 0 started)
      \<and> step envOK (Widget (ErrorOccurred (Some (Text ''rate limit exceeded'')))) started
        = flush envOK started (handleConnectionIssue 0 started)"
    by simp
  have "\<not> isReconnectingRef started \<and> 0 < MAX_RECONNECT_ATTEMPTS \<and> apiLoaded envOK
      \<and> \<not> ctorThrows envOK"
    using s ok lt by simp
  with failure_routing [where c = started and e = envOK and a = 0]
  have "reconnectAttempts (flush envOK started (handleConnectionIssue 0 started))
        = reconnectAttempts started + 1
      \<and> constructed (flush envOK started (handleConnectionIssue 0 started))
        = constructed started + 1
      \<and> connectionStatus (flush envOK started (handleConnectionIssue 0 started)) = Connected"
    by blast
  with r s
  have 3: "reconnectAttempts (step envOK (Widget ConnectionFailed) started) = 1
      \<and> constructed (step envOK (Widget ConnectionFailed) started) = 2
      \<and> connectionStatus (step envOK (Widget ConnectionFailed) started) = Connected
      \<and> reconnectAttempts (step envOK (Widget SuspendDetected) started) = 1
      \<and> constructed (step envOK (Widget SuspendDetected) started) = 2
      \<and> reconnectAttempts
          (step envOK (Widget (ErrorOccurred (Some (Text ''rate limit exceeded'')))) started) = 1
      \<and> constructed
          (step envOK (Widget (ErrorOccurred (Some (Text ''rate limit exceeded'')))) started) = 2"
    by simp
  from failure_routing [where c = started and e = envQueryThrows and i = 0 and m = m0] h s f q
  have 4: "step envQueryThrows (Tick 0) started
      = flush envQueryThrows c0 (handleConnectionIssue 0 c0)"
    by (simp add: c0_def m0_def)
  have "\<not> isReconnectingRef c0 \<and> 0 < MAX_RECONNECT_ATTEMPTS \<and> apiLoaded envQueryThrows
      \<and> \<not> ctorThrows envQueryThrows"
    using s0 q lt by simp
  with failure_routing [where c = c0 and e = envQueryThrows and a = 0]
  have "reconnectAttempts (flush envQueryThrows c0 (handleConnectionIssue 0 c0))
        = reconnectAttempts c0 + 1
      \<and> constructed (flush envQueryThrows c0 (handleConnectionIssue 0 c0)) = constructed c0 + 1"
    by blast
  with s0
  have 5: "reconnectAttempts (flush envQueryThrows c0 (handleConnectionIssue 0 c0)) = 1
      \<and> constructed (flush envQueryThrows c0 (handleConnectionIssue 0 c0)) = 2"
    by simp
  from failure_routing [where c = started and e = envDetached and i = 0 and m = m0] h s f dt
  have 6: "step envDetached (Tick 0) started = clearInterval m0 started"
    by simp
  from failure_routing [where c = "handleConnectionIssue 0 started" and e = envOK and a = 0] p
  have 7: "flush envOK (handleConnectionIssue 0 started)
        (handleConnectionIssue 0 (handleConnectionIssue 0 started))
       = handleConnectionIssue 0 started"
    by simp
  have "\<not> isReconnectingRef c3 \<and> MAX_RECONNECT_ATTEMPTS \<le> 3"
    using t ge by simp
  with failure_routing [where c = c3 and e = envOK and a = 3]
  have "flush envOK c3 (handleConnectionIssue 3 c3)
      = c3\<lparr>isReconnectingRef := True, connectionStatus := Failed\<rparr>"
    by blast
  with t
  have 8: "connectionStatus (flush envOK c3 (handleConnectionIssue 3 c3)) = Failed
      \<and> reconnectAttempts (flush envOK c3 (handleConnectionIssue 3 c3)) = 3"
    by simp
  from a b h s i f p t 1 2 3 4 5 6 7 8 show ?thesis
    by (simp add: m0_def c3_def)
qed

subsection \<open>The view\<close>

text \<open>
  C9, as stated: a status line is rendered for every status except connected. After a
  \<^verbatim>\<open>videoConferenceLeft\<close> event the status is left, the switch of
  \<^verbatim>\<open>renderConnectionStatus\<close> takes its default branch, and only the container is rendered.
\<close>

theorem status_line_missing_when_left:
  "connectionStatus (step envOK (Widget VideoConferenceLeft) started) = Left
   \<and> connectionStatus (step envOK (Widget VideoConferenceLeft) started) \<noteq> Connected
   \<and> render (step envOK (Widget VideoConferenceLeft) started)
       = [MountPoint ''jitsi-meet-container'' ''calc(100% - 40px)'']"
  by (simp add: input_defs effect_defs handler_defs render_def renderConnectionStatus_def)

text \<open>
  C9, amended: a status line is rendered exactly for the statuses connecting,
  reconnecting, error and failed (none for connected, left and closed), and for every
  status the container is rendered, once, as the last child.
\<close>

theorem status_line_cases:
  "(list_ex isStatusLine (render c) \<longleftrightarrow>
      connectionStatus c \<in> {Connecting, Reconnecting, Error, Failed})
   \<and> isMountPoint (last (render c))
   \<and> length (filter isMountPoint (render c)) = 1"
  by (cases "connectionStatus c")
     (simp_all add: render_def renderConnectionStatus_def isStatusLine_def isMountPoint_def)

theorem status_line_cases_witness:
  "connectionStatus (handleConnectionIssue 0 started) = Reconnecting
   \<and> render (handleConnectionIssue 0 started)
       = [StatusLine ''p-4 text-center'' ''Connection interrupted. Reconnecting... (Attempt 1/3)'',
          MountPoint ''jitsi-meet-container'' ''calc(100% - 40px)'']
   \<and> list_ex isStatusLine (render (handleConnectionIssue 0 started))
   \<and> isMountPoint (last (render (handleConnectionIssue 0 started)))"
  using status_line_cases [of "handleConnectionIssue 0 started"]
  by (simp add: input_defs effect_defs handler_defs render_def renderConnectionStatus_def
        show_nat.simps)

subsection \<open>Default parameters\<close>



end
